theory Spec2Isabelle
  imports Complex_Main
begin

section \<open>Data model (types.ts)\<close>

text \<open>
  The interfaces of \<^verbatim>\<open>types.ts\<close> become records. Isabelle record fields share one name
  space, so a field \<^verbatim>\<open>f\<close> carries a prefix naming its interface: \<^verbatim>\<open>pt_\<close> (Point),
  \<^verbatim>\<open>r_\<close> (Rocket), \<^verbatim>\<open>m_\<close> (Missile), \<^verbatim>\<open>e_\<close> (Explosion), \<^verbatim>\<open>b_\<close> (Battery),
  \<^verbatim>\<open>c_\<close> (City), \<^verbatim>\<open>pu_\<close> (PowerUp). JavaScript numbers are modelled as reals for
  coordinates, radii, speeds and times, and as integers for ammunition and score, which the
  program only ever changes by adding or subtracting integers. An optional field is an
  \<^typ>\<open>'a option\<close>.
\<close>

datatype GameStatus = START | PLAYING | WON | LOST

record Point =
  pt_x :: real
  pt_y :: real

record Rocket =
  r_id :: string
  r_start :: Point
  r_current :: Point
  r_target :: Point
  r_speed :: real
  r_color :: string

record Missile =
  m_id :: string
  m_start :: Point
  m_current :: Point
  m_target :: Point
  m_speed :: real
  m_batteryIndex :: nat
  m_targetRocketId :: "string option"

record Explosion =
  e_id :: string
  e_x :: real
  e_y :: real
  e_radius :: real
  e_maxRadius :: real
  e_growing :: bool

record Battery =
  b_x :: real
  b_y :: real
  b_missiles :: int
  b_maxMissiles :: int
  b_active :: bool

record City =
  c_x :: real
  c_active :: bool

datatype PowerUpType = AMMO | SUGAR

record PowerUp =
  pu_id :: string
  pu_x :: real
  pu_y :: real
  pu_type :: PowerUpType
  pu_createdAt :: real
  pu_duration :: real

section \<open>Constants (App.tsx, lines 12-18)\<close>

definition CANVAS_WIDTH :: real where "CANVAS_WIDTH = 800"
definition CANVAS_HEIGHT :: real where "CANVAS_HEIGHT = 600"
definition EXPLOSION_MAX_RADIUS :: real where "EXPLOSION_MAX_RADIUS = 35"
definition EXPLOSION_SPEED :: real where "EXPLOSION_SPEED = 1.5"
definition MISSILE_SPEED :: real where "MISSILE_SPEED = 7"
definition ROCKET_SPEED_MIN :: real where "ROCKET_SPEED_MIN = 0.4"
definition ROCKET_SPEED_MAX :: real where "ROCKET_SPEED_MAX = 0.8"

section \<open>Session state (the React state and refs of App)\<close>

text \<open>
  One record holds what the component keeps in \<^verbatim>\<open>useState\<close> and \<^verbatim>\<open>useRef\<close>.
  \<^verbatim>\<open>sugarTimers\<close> is the host's queue of pending \<^verbatim>\<open>setTimeout\<close> callbacks, each of
  which is \<^verbatim>\<open>() => setIsSugarActive(false)\<close>; an entry is the wall-clock time at which
  the callback becomes due.
\<close>

record game =
  status :: GameStatus
  score :: int
  isSugarActive :: bool
  sugarTimers :: "real list"
  rocketsRef :: "Rocket list"
  missilesRef :: "Missile list"
  explosionsRef :: "Explosion list"
  powerUpsRef :: "PowerUp list"
  batteriesRef :: "Battery list"
  citiesRef :: "City list"
  lastSpawnTime :: real

definition initial_batteries :: "Battery list" where
  "initial_batteries =
    [\<lparr>b_x = 100, b_y = CANVAS_HEIGHT - 40, b_missiles = 50, b_maxMissiles = 50, b_active = True\<rparr>,
     \<lparr>b_x = CANVAS_WIDTH / 2, b_y = CANVAS_HEIGHT - 40, b_missiles = 100, b_maxMissiles = 100,
       b_active = True\<rparr>,
     \<lparr>b_x = CANVAS_WIDTH - 100, b_y = CANVAS_HEIGHT - 40, b_missiles = 50, b_maxMissiles = 50,
       b_active = True\<rparr>]"

definition initial_cities :: "City list" where
  "initial_cities =
    [\<lparr>c_x = 150, c_active = True\<rparr>, \<lparr>c_x = 250, c_active = True\<rparr>,
     \<lparr>c_x = 350, c_active = True\<rparr>, \<lparr>c_x = 450, c_active = True\<rparr>,
     \<lparr>c_x = 550, c_active = True\<rparr>, \<lparr>c_x = 650, c_active = True\<rparr>]"

text \<open>The state of a freshly mounted component (lines 21-25 and 80-97).\<close>

definition mount :: game where
  "mount = \<lparr>status = START, score = 0, isSugarActive = False, sugarTimers = [],
     rocketsRef = [], missilesRef = [], explosionsRef = [], powerUpsRef = [],
     batteriesRef = initial_batteries, citiesRef = initial_cities, lastSpawnTime = 0\<rparr>"

text \<open>\<^verbatim>\<open>initGame\<close> (lines 233-254). It leaves \<^verbatim>\<open>lastSpawnTime\<close> and pending timers alone.\<close>

definition initGame :: "game \<Rightarrow> game" where
  "initGame st = st\<lparr>score := 0, isSugarActive := False,
     rocketsRef := [], missilesRef := [], explosionsRef := [], powerUpsRef := [],
     batteriesRef := initial_batteries, citiesRef := initial_cities, status := PLAYING\<rparr>"

section \<open>Array helpers\<close>

text \<open>\<^verbatim>\<open>xs.splice(i, 1)\<close>: remove the element at index \<open>i\<close> (nothing when out of range).\<close>

definition splice1 :: "nat \<Rightarrow> 'a list \<Rightarrow> 'a list" where
  "splice1 i xs = take i xs @ drop (Suc i) xs"

text \<open>
  \<^verbatim>\<open>xs.forEach(cb)\<close> where \<^verbatim>\<open>cb\<close> may mutate \<^verbatim>\<open>xs\<close>: the length is read once, before
  the first call; the indices \<open>0 .. len - 1\<close> are visited in order; at each index the
  callback runs on the element now at that index, and an index that is no longer present is
  skipped. The presence test and the read are part of each callback below
  (\<open>k < length \<dots>\<close>), which gets the whole state.
\<close>

definition forEach_idx :: "nat \<Rightarrow> (nat \<Rightarrow> 's \<Rightarrow> 's) \<Rightarrow> 's \<Rightarrow> 's" where
  "forEach_idx len cb s = fold cb [0..<len] s"

text \<open>The Euclidean distance the program computes with \<^verbatim>\<open>Math.sqrt\<close> and \<^verbatim>\<open>Math.pow\<close>.\<close>

definition dist2 :: "real \<Rightarrow> real \<Rightarrow> real \<Rightarrow> real \<Rightarrow> real" where
  "dist2 ax ay bx by = sqrt ((ax - bx)\<^sup>2 + (ay - by)\<^sup>2)"

section \<open>Targeting and dispatch: handleFire (lines 288-390)\<close>

text \<open>
  The model starts after the pointer event has been scaled to play-space coordinates
  \<open>(fx, fy)\<close>. \<open>ids k\<close> is the \<open>k\<close>-th string that
  \<^verbatim>\<open>Math.random().toString(36).substring(7)\<close> yields during the call.
\<close>

text \<open>
  Lines 314-326. The accumulator is \<open>None\<close> for \<^verbatim>\<open>bestBatteryIndex = -1\<close>,
  \<^verbatim>\<open>minDist = Infinity\<close>, and \<open>Some (i, d)\<close> otherwise.
\<close>

definition battery_cost :: "nat \<Rightarrow> int" where
  "battery_cost i = (if i = 0 then 10 else 1)"

definition best_step ::
  "real \<Rightarrow> Battery list \<Rightarrow> nat \<Rightarrow> (nat \<times> real) option \<Rightarrow> (nat \<times> real) option" where
  "best_step fx bs i acc =
     (let b = bs ! i; cost = battery_cost i in
      if b_active b \<and> b_missiles b \<ge> cost then
        (let dist = \<bar>b_x b - fx\<bar> in
         case acc of
           None \<Rightarrow> Some (i, dist)
         | Some (j, minDist) \<Rightarrow> if dist < minDist then Some (i, dist) else Some (j, minDist))
      else acc)"

definition bestBatteryIndex :: "real \<Rightarrow> Battery list \<Rightarrow> nat option" where
  "bestBatteryIndex fx bs = map_option fst (fold (best_step fx bs) [0..<length bs] None)"

definition battery_pos :: "Battery \<Rightarrow> Point" where
  "battery_pos b = \<lparr>pt_x = b_x b, pt_y = b_y b\<rparr>"

definition spend :: "nat \<Rightarrow> int \<Rightarrow> Battery list \<Rightarrow> Battery list" where
  "spend i n bs = bs[i := (bs ! i)\<lparr>b_missiles := b_missiles (bs ! i) - n\<rparr>]"

text \<open>The tracking Interceptor pushed for one selected Projectile (lines 357-365).\<close>

definition tracking_missile :: "Battery \<Rightarrow> nat \<Rightarrow> string \<Rightarrow> Rocket \<Rightarrow> Missile" where
  "tracking_missile battery i ident targetRocket =
     \<lparr>m_id = ident, m_start = battery_pos battery, m_current = battery_pos battery,
      m_target = \<lparr>pt_x = pt_x (r_current targetRocket), pt_y = pt_y (r_current targetRocket)\<rparr>,
      m_speed = MISSILE_SPEED * 1.5, m_batteryIndex = i,
      m_targetRocketId = Some (r_id targetRocket)\<rparr>"

text \<open>The untracked Interceptor aimed at the fire point (lines 334-341, 368-375, 380-387).\<close>

definition plain_missile :: "Battery \<Rightarrow> nat \<Rightarrow> string \<Rightarrow> real \<Rightarrow> real \<Rightarrow> real \<Rightarrow> Missile" where
  "plain_missile battery i ident fx fy speed =
     \<lparr>m_id = ident, m_start = battery_pos battery, m_current = battery_pos battery,
      m_target = \<lparr>pt_x = fx, pt_y = fy\<rparr>, m_speed = speed, m_batteryIndex = i,
      m_targetRocketId = None\<rparr>"

text \<open>Lines 344-351: a copy of the pool, sorted (stably) by distance to the fire point.\<close>

definition nearest_rockets :: "real \<Rightarrow> real \<Rightarrow> Rocket list \<Rightarrow> Rocket list" where
  "nearest_rockets fx fy rs =
     take 2 (sort_key (\<lambda>a. dist2 (pt_x (r_current a)) (pt_y (r_current a)) fx fy) rs)"

definition handleFire :: "real \<Rightarrow> real \<Rightarrow> (nat \<Rightarrow> string) \<Rightarrow> game \<Rightarrow> game" where
  "handleFire fx fy ids st =
     (if status st \<noteq> PLAYING then st
      else if fy > CANVAS_HEIGHT - 80 then st
      else case bestBatteryIndex fx (batteriesRef st) of
        None \<Rightarrow> st
      | Some i \<Rightarrow>
         (let battery = batteriesRef st ! i in
          if i = 0 then
            st\<lparr>batteriesRef := spend i 10 (batteriesRef st),
               missilesRef := missilesRef st @
                 [plain_missile battery i (ids 0) fx fy (MISSILE_SPEED * 0.7)]\<rparr>
          else if i = 1 then
            (let targets = nearest_rockets fx fy (rocketsRef st);
                 count = max 1 (int (length targets));
                 st1 = st\<lparr>batteriesRef := spend i count (batteriesRef st)\<rparr> in
             if length targets > 0 then
               st1\<lparr>missilesRef := missilesRef st1 @
                    map (\<lambda>(k, targetRocket). tracking_missile battery i (ids k) targetRocket)
                        (zip [0..<length targets] targets)\<rparr>
             else
               st1\<lparr>missilesRef := missilesRef st1 @
                    [plain_missile battery i (ids 0) fx fy MISSILE_SPEED]\<rparr>)
          else if i = 2 then
            st\<lparr>batteriesRef := spend i 1 (batteriesRef st),
               missilesRef := missilesRef st @
                 [plain_missile battery i (ids 0) fx fy MISSILE_SPEED]\<rparr>
          else st))"

section \<open>The frame update (lines 392-562)\<close>

text \<open>
  What one call of \<^verbatim>\<open>update\<close> reads from outside the session state: the frame time, the
  two readings of \<^verbatim>\<open>Date.now()\<close>, and the values of the calls of \<^verbatim>\<open>Math.random()\<close>
  in the order \<^verbatim>\<open>spawnRocket\<close> and \<^verbatim>\<open>spawnPowerUp\<close> make them (the two identifiers
  already as the strings derived from them).
\<close>

record tick =
  t_time :: real
  t_now :: real
  t_spawn_now :: real
  rnd_startX :: real
  rnd_target :: real
  rnd_rocket_id :: string
  rnd_speed :: real
  rnd_powerup :: real
  rnd_pu_id :: string
  rnd_pu_type :: real
  rnd_pu_x :: real
  rnd_pu_y :: real

subsection \<open>Spawner (lines 256-286, 395-405)\<close>

text \<open>
  \<^verbatim>\<open>Math.random()\<close> lies in \<open>[0, 1)\<close>, so the index into \<^verbatim>\<open>targets\<close> is in range;
  the model pushes nothing for an index out of range, which no run produces.
\<close>

definition spawnRocket :: "tick \<Rightarrow> game \<Rightarrow> game" where
  "spawnRocket inp st =
     (let startX = rnd_startX inp * CANVAS_WIDTH;
          targets = map c_x (filter c_active (citiesRef st)) @
                    map b_x (filter b_active (batteriesRef st)) in
      if length targets = 0 then st
      else
        (let idx = nat \<lfloor>rnd_target inp * real (length targets)\<rfloor> in
         if idx < length targets then
           st\<lparr>rocketsRef := rocketsRef st @
             [\<lparr>r_id = rnd_rocket_id inp,
               r_start = \<lparr>pt_x = startX, pt_y = 0\<rparr>,
               r_current = \<lparr>pt_x = startX, pt_y = 0\<rparr>,
               r_target = \<lparr>pt_x = targets ! idx, pt_y = CANVAS_HEIGHT - 20\<rparr>,
               r_speed = ROCKET_SPEED_MIN + rnd_speed inp * (ROCKET_SPEED_MAX - ROCKET_SPEED_MIN),
               r_color = ''#ff4444''\<rparr>]\<rparr>
         else st))"

definition spawnPowerUp :: "tick \<Rightarrow> game \<Rightarrow> game" where
  "spawnPowerUp inp st =
     st\<lparr>powerUpsRef := powerUpsRef st @
       [\<lparr>pu_id = rnd_pu_id inp,
         pu_x = 50 + rnd_pu_x inp * (CANVAS_WIDTH - 100),
         pu_y = 100 + rnd_pu_y inp * (CANVAS_HEIGHT - 300),
         pu_type = (if rnd_pu_type inp > 0.5 then AMMO else SUGAR),
         pu_createdAt = t_spawn_now inp,
         pu_duration = 5000\<rparr>]\<rparr>"

definition spawn_phase :: "tick \<Rightarrow> game \<Rightarrow> game" where
  "spawn_phase inp st =
     (let spawnDelay = max 200 (1500 - min (real_of_int (score st)) 800) in
      if t_time inp - lastSpawnTime st > spawnDelay then
        (let st1 = (spawnRocket inp st)\<lparr>lastSpawnTime := t_time inp\<rparr> in
         if rnd_powerup inp < 0.1 then spawnPowerUp inp st1 else st1)
      else st)"

subsection \<open>Projectiles (lines 410-450)\<close>

text \<open>Lines 435-440 and 441-446: the damage loops, threading the functional score updates.\<close>

fun damage_cities :: "real \<Rightarrow> City list \<Rightarrow> int \<Rightarrow> City list \<times> int" where
  "damage_cities rx [] sc = ([], sc)"
| "damage_cities rx (city # cs) sc =
     (if c_active city \<and> \<bar>c_x city - rx\<bar> < 30 then
        (case damage_cities rx cs (max 0 (sc - 10)) of
           (cs', sc') \<Rightarrow> (city\<lparr>c_active := False\<rparr> # cs', sc'))
      else
        (case damage_cities rx cs sc of (cs', sc') \<Rightarrow> (city # cs', sc')))"

fun damage_batteries :: "real \<Rightarrow> Battery list \<Rightarrow> int \<Rightarrow> Battery list \<times> int" where
  "damage_batteries rx [] sc = ([], sc)"
| "damage_batteries rx (battery # bs) sc =
     (if b_active battery \<and> \<bar>b_x battery - rx\<bar> < 30 then
        (case damage_batteries rx bs (max 0 (sc - 30)) of
           (bs', sc') \<Rightarrow> (battery\<lparr>b_active := False\<rparr> # bs', sc'))
      else
        (case damage_batteries rx bs sc of (bs', sc') \<Rightarrow> (battery # bs', sc')))"

text \<open>
  The unit step along \<open>start \<rightarrow> target\<close>, scaled by the speed (lines 412-416 and 465-469).
  The program divides by \<open>dist\<close> unguarded; where \<open>dist = 0\<close> JavaScript yields \<open>NaN\<close>,
  which the reals do not have, so the model is exact only for \<open>dist \<noteq> 0\<close>.
\<close>

definition seg_dist :: "Point \<Rightarrow> Point \<Rightarrow> real" where
  "seg_dist s t = (let dx = pt_x t - pt_x s; dy = pt_y t - pt_y s in sqrt (dx * dx + dy * dy))"

definition velocity :: "Point \<Rightarrow> Point \<Rightarrow> real \<Rightarrow> Point" where
  "velocity s t speed =
     (let dx = pt_x t - pt_x s; dy = pt_y t - pt_y s; dist = seg_dist s t in
      \<lparr>pt_x = (dx / dist) * speed, pt_y = (dy / dist) * speed\<rparr>)"

text \<open>The small Blast a Projectile leaves where it lands (lines 425-432).\<close>

definition impact_explosion :: "Rocket \<Rightarrow> Explosion" where
  "impact_explosion rocket =
     \<lparr>e_id = ''impact-'' @ r_id rocket, e_x = pt_x (r_current rocket),
      e_y = pt_y (r_current rocket), e_radius = 2, e_maxRadius = 20, e_growing = True\<rparr>"

text \<open>
  The callback of \<^verbatim>\<open>rocketsRef.current.forEach\<close>. \<open>sugar\<close> is the value of
  \<^verbatim>\<open>isSugarActive\<close> that the closure of this \<^verbatim>\<open>update\<close> captured.
\<close>

definition rocket_cb :: "bool \<Rightarrow> nat \<Rightarrow> game \<Rightarrow> game" where
  "rocket_cb sugar index st =
     (if index < length (rocketsRef st) then
        (let rocket0 = rocketsRef st ! index;
             v = velocity (r_start rocket0) (r_target rocket0) (r_speed rocket0);
             f = (if sugar then 0.4 else 1);
             rocket = rocket0\<lparr>r_current :=
               \<lparr>pt_x = pt_x (r_current rocket0) + pt_x v * f,
                pt_y = pt_y (r_current rocket0) + pt_y v * f\<rparr>\<rparr>;
             st1 = st\<lparr>rocketsRef := (rocketsRef st)[index := rocket]\<rparr> in
         if pt_y (r_current rocket) \<ge> pt_y (r_target rocket) then
           (let st2 = st1\<lparr>explosionsRef := explosionsRef st1 @ [impact_explosion rocket]\<rparr> in
            case damage_cities (pt_x (r_current rocket)) (citiesRef st2) (score st2) of
              (cs, sc1) \<Rightarrow>
                (case damage_batteries (pt_x (r_current rocket)) (batteriesRef st2) sc1 of
                   (bs, sc2) \<Rightarrow>
                     st2\<lparr>citiesRef := cs, batteriesRef := bs, score := sc2,
                         rocketsRef := splice1 index (rocketsRef st2)\<rparr>))
         else st1)
      else st)"

definition update_rockets :: "bool \<Rightarrow> game \<Rightarrow> game" where
  "update_rockets sugar st = forEach_idx (length (rocketsRef st)) (rocket_cb sugar) st"

subsection \<open>Interceptors (lines 452-492)\<close>

text \<open>
  Lines 455-463. \<^verbatim>\<open>if (missile.targetRocketId)\<close> is a truthiness test: an absent
  reference and the empty string both fail it.
\<close>

definition retarget :: "Rocket list \<Rightarrow> Missile \<Rightarrow> Missile" where
  "retarget rs missile =
     (case m_targetRocketId missile of
        None \<Rightarrow> missile
      | Some rid \<Rightarrow>
          if rid = [] then missile
          else (case find (\<lambda>r. r_id r = rid) rs of
                  Some targetRocket \<Rightarrow> missile\<lparr>m_target := r_current targetRocket\<rparr>
                | None \<Rightarrow> missile\<lparr>m_targetRocketId := None\<rparr>))"

definition missile_explosion :: "Missile \<Rightarrow> Explosion" where
  "missile_explosion missile =
     (let isNuke = (m_batteryIndex missile = 0); isWide = (m_batteryIndex missile = 2) in
      \<lparr>e_id = ''exp-'' @ m_id missile, e_x = pt_x (m_target missile),
       e_y = pt_y (m_target missile), e_radius = 2,
       e_maxRadius = (if isNuke then 150 else if isWide then 70 else EXPLOSION_MAX_RADIUS),
       e_growing = True\<rparr>)"

definition missile_cb :: "nat \<Rightarrow> game \<Rightarrow> game" where
  "missile_cb index st =
     (if index < length (missilesRef st) then
        (let missile1 = retarget (rocketsRef st) (missilesRef st ! index);
             v = velocity (m_start missile1) (m_target missile1) (m_speed missile1);
             missile = missile1\<lparr>m_current :=
               \<lparr>pt_x = pt_x (m_current missile1) + pt_x v,
                pt_y = pt_y (m_current missile1) + pt_y v\<rparr>\<rparr>;
             st1 = st\<lparr>missilesRef := (missilesRef st)[index := missile]\<rparr>;
             distToTarget = dist2 (pt_x (m_target missile)) (pt_y (m_target missile))
                                  (pt_x (m_current missile)) (pt_y (m_current missile)) in
         if distToTarget < m_speed missile then
           st1\<lparr>explosionsRef := explosionsRef st1 @ [missile_explosion missile],
               missilesRef := splice1 index (missilesRef st1)\<rparr>
         else st1)
      else st)"

definition update_missiles :: "game \<Rightarrow> game" where
  "update_missiles st = forEach_idx (length (missilesRef st)) missile_cb st"

subsection \<open>Pickup expiry (lines 494-500)\<close>

definition powerup_cb :: "real \<Rightarrow> nat \<Rightarrow> game \<Rightarrow> game" where
  "powerup_cb now index st =
     (if index < length (powerUpsRef st) then
        (let pu = powerUpsRef st ! index in
         if now - pu_createdAt pu > pu_duration pu then
           st\<lparr>powerUpsRef := splice1 index (powerUpsRef st)\<rparr>
         else st)
      else st)"

definition update_powerups :: "real \<Rightarrow> game \<Rightarrow> game" where
  "update_powerups now st = forEach_idx (length (powerUpsRef st)) (powerup_cb now) st"

subsection \<open>Blasts and collisions (lines 502-547)\<close>

text \<open>
  Lines 504-512 on one Blast (\<^verbatim>\<open>exp\<close> in the source; \<open>exp\<close> is HOL's exponential): the Blast after the step, and whether the step spliced it
  out of the pool.
\<close>

definition explosion_step :: "Explosion \<Rightarrow> Explosion \<times> bool" where
  "explosion_step expl =
     (if e_growing expl then
        (let exp1 = expl\<lparr>e_radius := e_radius expl + EXPLOSION_SPEED\<rparr> in
         if e_radius exp1 \<ge> e_maxRadius exp1 then (exp1\<lparr>e_growing := False\<rparr>, False)
         else (exp1, False))
      else
        (let exp1 = expl\<lparr>e_radius := e_radius expl - EXPLOSION_SPEED * 0.5\<rparr> in
         (exp1, e_radius exp1 \<le> 0)))"

text \<open>Lines 515-525: the callback of the inner loop over the Projectile pool.\<close>

definition hit_rocket_cb :: "Explosion \<Rightarrow> nat \<Rightarrow> game \<Rightarrow> game" where
  "hit_rocket_cb expl rIndex st =
     (if rIndex < length (rocketsRef st) then
        (let rocket = rocketsRef st ! rIndex;
             dist = dist2 (e_x expl) (e_y expl) (pt_x (r_current rocket)) (pt_y (r_current rocket)) in
         if dist < e_radius expl then
           st\<lparr>rocketsRef := splice1 rIndex (rocketsRef st), score := score st + 20\<rparr>
         else st)
      else st)"

text \<open>
  Lines 534-543: the effect of a consumed Pickup. \<^verbatim>\<open>setTimeout(\<dots>, 5000)\<close> queues a
  callback that is due 5000 ms after the call; the wall-clock time of the call is taken to be
  the \<^verbatim>\<open>Date.now()\<close> this \<^verbatim>\<open>update\<close> has just read. No timer is ever cleared.
\<close>

definition apply_powerup :: "real \<Rightarrow> PowerUp \<Rightarrow> game \<Rightarrow> game" where
  "apply_powerup now pu st =
     (case pu_type pu of
        AMMO \<Rightarrow>
          st\<lparr>batteriesRef :=
               map (\<lambda>b. if b_active b then b\<lparr>b_missiles := b_maxMissiles b\<rparr> else b)
                   (batteriesRef st)\<rparr>
      | SUGAR \<Rightarrow>
          st\<lparr>isSugarActive := True, sugarTimers := sugarTimers st @ [now + 5000]\<rparr>)"

text \<open>Lines 528-546: the callback of the inner loop over the Pickup pool.\<close>

definition hit_powerup_cb :: "real \<Rightarrow> Explosion \<Rightarrow> nat \<Rightarrow> game \<Rightarrow> game" where
  "hit_powerup_cb now expl puIndex st =
     (if puIndex < length (powerUpsRef st) then
        (let pu = powerUpsRef st ! puIndex;
             dist = dist2 (e_x expl) (e_y expl) (pu_x pu) (pu_y pu) in
         if dist < e_radius expl then
           (let st1 = apply_powerup now pu st in
            st1\<lparr>powerUpsRef := splice1 puIndex (powerUpsRef st1)\<rparr>)
         else st)
      else st)"

text \<open>
  The callback of \<^verbatim>\<open>explosionsRef.current.forEach\<close>: step the Blast (in place, or splice
  it out), then test it against both pools. A spliced Blast is still the \<^verbatim>\<open>exp\<close> of the
  two inner loops.
\<close>

definition explosion_cb :: "real \<Rightarrow> nat \<Rightarrow> game \<Rightarrow> game" where
  "explosion_cb now index st =
     (if index < length (explosionsRef st) then
        (case explosion_step (explosionsRef st ! index) of
           (expl, removed) \<Rightarrow>
             (let st1 = st\<lparr>explosionsRef :=
                    (if removed then splice1 index (explosionsRef st)
                     else (explosionsRef st)[index := expl])\<rparr>;
                  st2 = forEach_idx (length (rocketsRef st1)) (hit_rocket_cb expl) st1 in
              forEach_idx (length (powerUpsRef st2)) (hit_powerup_cb now expl) st2))
      else st)"

definition update_explosions :: "real \<Rightarrow> game \<Rightarrow> game" where
  "update_explosions now st = forEach_idx (length (explosionsRef st)) (explosion_cb now) st"

subsection \<open>Ammunition and loss checks (lines 549-561)\<close>

fun check_ammo :: "nat \<Rightarrow> Battery list \<Rightarrow> Battery list" where
  "check_ammo i [] = []"
| "check_ammo i (b # bs) =
     (if b_active b \<and> b_missiles b < battery_cost i then b\<lparr>b_active := False\<rparr> else b)
     # check_ammo (Suc i) bs"

definition check_lose :: "game \<Rightarrow> game" where
  "check_lose st =
     (if list_all (\<lambda>b. \<not> b_active b) (batteriesRef st) then st\<lparr>status := LOST\<rparr> else st)"

subsection \<open>One tick\<close>

text \<open>Everything \<^verbatim>\<open>update\<close> does before the loss check, in the order of the source.\<close>

definition mutations :: "tick \<Rightarrow> game \<Rightarrow> game" where
  "mutations inp st =
     (let st1 = spawn_phase inp st;
          st2 = update_rockets (isSugarActive st) st1;
          st3 = update_missiles st2;
          st4 = update_powerups (t_now inp) st3;
          st5 = update_explosions (t_now inp) st4 in
      st5\<lparr>batteriesRef := check_ammo 0 (batteriesRef st5)\<rparr>)"

definition update :: "tick \<Rightarrow> game \<Rightarrow> game" where
  "update inp st = (if status st \<noteq> PLAYING then st else check_lose (mutations inp st))"

section \<open>Timers\<close>

text \<open>
  The host runs a \<^verbatim>\<open>setTimeout\<close> callback once its delay has passed. \<open>run_timers t\<close>
  is the state after every callback due by wall-clock time \<open>t\<close> has run: each sets
  \<^verbatim>\<open>isSugarActive\<close> to false and leaves the queue.
\<close>

definition run_timers :: "real \<Rightarrow> game \<Rightarrow> game" where
  "run_timers t st =
     (if list_ex (\<lambda>d. d \<le> t) (sugarTimers st)
      then st\<lparr>isSugarActive := False, sugarTimers := filter (\<lambda>d. \<not> d \<le> t) (sugarTimers st)\<rparr>
      else st)"

section \<open>Sessions\<close>

text \<open>
  What can happen to a mounted component: the start/reset command, a fire command, a frame,
  and the host running the timers due at some wall-clock time. A session is a finite
  sequence of these from the mounted state.
\<close>

datatype event = Start | Fire real real "nat \<Rightarrow> string" | Frame tick | Timeout real

fun apply_event :: "event \<Rightarrow> game \<Rightarrow> game" where
  "apply_event Start st = initGame st"
| "apply_event (Fire fx fy ids) st = handleFire fx fy ids st"
| "apply_event (Frame inp) st = update inp st"
| "apply_event (Timeout t) st = run_timers t st"

definition run :: "event list \<Rightarrow> game" where
  "run evs = fold apply_event evs mount"

text \<open>The launch sites of a list of Emplacements.\<close>

definition sites :: "Battery list \<Rightarrow> Point list" where
  "sites bs = map battery_pos bs"

section \<open>Concrete inputs\<close>

text \<open>A frame 16 ms after the last spawn: nothing is spawned.\<close>

definition tick0 :: tick where
  "tick0 = \<lparr>t_time = 16, t_now = 1000, t_spawn_now = 1000, rnd_startX = 0.5,
     rnd_target = 0.5, rnd_rocket_id = ''r'', rnd_speed = 0.5, rnd_powerup = 0.5,
     rnd_pu_id = ''p'', rnd_pu_type = 0.7, rnd_pu_x = 0.5, rnd_pu_y = 0.5\<rparr>"

definition rocket_at :: "string \<Rightarrow> real \<Rightarrow> real \<Rightarrow> Rocket" where
  "rocket_at ident px py =
     \<lparr>r_id = ident, r_start = \<lparr>pt_x = px, pt_y = 0\<rparr>, r_current = \<lparr>pt_x = px, pt_y = py\<rparr>,
      r_target = \<lparr>pt_x = px, pt_y = 580\<rparr>, r_speed = 0.5, r_color = ''#ff4444''\<rparr>"

text \<open>A running session whose center Emplacement is down to one unit, with three Projectiles.\<close>

definition low_ammo :: game where
  "low_ammo = (initGame mount)
     \<lparr>batteriesRef := [
        \<lparr>b_x = 100, b_y = 560, b_missiles = 50, b_maxMissiles = 50, b_active = True\<rparr>,
        \<lparr>b_x = 400, b_y = 560, b_missiles = 1, b_maxMissiles = 100, b_active = True\<rparr>,
        \<lparr>b_x = 700, b_y = 560, b_missiles = 50, b_maxMissiles = 50, b_active = True\<rparr>],
      rocketsRef := [rocket_at ''a'' 400 100, rocket_at ''b'' 400 290, rocket_at ''c'' 400 300]\<rparr>"

text \<open>A running session in which every Emplacement has run out of ammunition.\<close>

definition dry :: game where
  "dry = (initGame mount)
     \<lparr>batteriesRef := [
        \<lparr>b_x = 100, b_y = 560, b_missiles = 0, b_maxMissiles = 50, b_active = True\<rparr>,
        \<lparr>b_x = 400, b_y = 560, b_missiles = 0, b_maxMissiles = 100, b_active = True\<rparr>,
        \<lparr>b_x = 700, b_y = 560, b_missiles = 0, b_maxMissiles = 50, b_active = True\<rparr>]\<rparr>"

text \<open>A running session with one growing Blast at \<open>(300, 200)\<close> and a given Projectile pool.\<close>

definition two_in_range :: "Rocket list \<Rightarrow> game" where
  "two_in_range rs = (initGame mount)
     \<lparr>explosionsRef := [\<lparr>e_id = ''exp-m'', e_x = 300, e_y = 200, e_radius = 20,
                          e_maxRadius = 35, e_growing = True\<rparr>],
      rocketsRef := rs\<rparr>"

text \<open>
  A running session with two Blasts: the older one is about to fade out, the younger one has
  been stepped once since it was created.
\<close>

definition fading_then_growing :: game where
  "fading_then_growing = (initGame mount)
     \<lparr>explosionsRef :=
        [\<lparr>e_id = ''exp-a'', e_x = 300, e_y = 200, e_radius = 0.5, e_maxRadius = 35,
          e_growing = False\<rparr>,
         \<lparr>e_id = ''exp-b'', e_x = 500, e_y = 200, e_radius = 3.5, e_maxRadius = 35,
          e_growing = True\<rparr>]\<rparr>"

text \<open>
  A running session with three Projectiles coming down on the Structure at \<open>x = 150\<close>, the
  first of them one step above the ground.
\<close>

definition landing :: game where
  "landing = (initGame mount)
     \<lparr>rocketsRef := [rocket_at ''r0'' 150 579.8, rocket_at ''a'' 150 579,
                     rocket_at ''b'' 150 579.3]\<rparr>"

text \<open>
  A running session with one growing Blast and two slow-time Pickups, 10 and 22 away from
  its center, and two frames one second apart.
\<close>

definition sugar_scene :: game where
  "sugar_scene = (initGame mount)
     \<lparr>lastSpawnTime := 1000,
      explosionsRef := [\<lparr>e_id = ''exp-m'', e_x = 300, e_y = 200, e_radius = 20,
                          e_maxRadius = 35, e_growing = True\<rparr>],
      powerUpsRef :=
        [\<lparr>pu_id = ''s1'', pu_x = 300, pu_y = 210, pu_type = SUGAR, pu_createdAt = 0,
          pu_duration = 5000\<rparr>,
         \<lparr>pu_id = ''s2'', pu_x = 300, pu_y = 222, pu_type = SUGAR, pu_createdAt = 0,
          pu_duration = 5000\<rparr>]\<rparr>"

definition tick_a :: tick where
  "tick_a = tick0\<lparr>t_time := 1016, t_now := 1000\<rparr>"

definition tick_b :: tick where
  "tick_b = tick0\<lparr>t_time := 2016, t_now := 2000\<rparr>"

text \<open>Every Blast in the pool has a positive radius.\<close>

definition radii_ok :: "game \<Rightarrow> bool" where
  "radii_ok st = list_all (\<lambda>e. 0 < e_radius e) (explosionsRef st)"

section \<open>Auxiliary lemmas\<close>

subsection \<open>Loops and sessions\<close>

lemma forEach_idx_inv:
  assumes "P s" and "\<And>k s. P s \<Longrightarrow> P (cb k s)"
  shows "P (forEach_idx n cb s)"
proof -
  have "P (fold cb ks s)" for ks
    using assms(1) by (induction ks arbitrary: s) (simp_all add: assms(2))
  then show ?thesis by (simp add: forEach_idx_def)
qed

lemma run_inv:
  assumes "P mount" and "\<And>e s. P s \<Longrightarrow> P (apply_event e s)"
  shows "P (run evs)"
proof -
  have "P (fold apply_event evs s)" if "P s" for s
    using that by (induction evs arbitrary: s) (simp_all add: assms(2))
  then show ?thesis using assms(1) by (simp add: run_def)
qed

subsection \<open>The frame update leaves the status alone until the loss check\<close>

lemma status_spawn_phase: "status (spawn_phase inp st) = status st"
  by (simp add: spawn_phase_def spawnRocket_def spawnPowerUp_def Let_def)

lemma status_rocket_cb: "status (rocket_cb sugar k st) = status st"
  by (simp add: rocket_cb_def Let_def split: prod.splits)

lemma status_missile_cb: "status (missile_cb k st) = status st"
  by (simp add: missile_cb_def Let_def)

lemma status_powerup_cb: "status (powerup_cb now k st) = status st"
  by (simp add: powerup_cb_def Let_def)

lemma status_hit_rocket_cb: "status (hit_rocket_cb e k st) = status st"
  by (simp add: hit_rocket_cb_def Let_def)

lemma status_hit_powerup_cb: "status (hit_powerup_cb now e k st) = status st"
  by (simp add: hit_powerup_cb_def apply_powerup_def Let_def split: PowerUpType.splits)

lemma status_explosion_cb: "status (explosion_cb now k st) = status st"
proof -
  have a: "status (forEach_idx n (hit_rocket_cb e) s) = status s" for n e s
    by (rule forEach_idx_inv[where P="\<lambda>t. status t = status s"]) (simp_all add: status_hit_rocket_cb)
  have b: "status (forEach_idx n (hit_powerup_cb now e) s) = status s" for n e s
    by (rule forEach_idx_inv[where P="\<lambda>t. status t = status s"]) (simp_all add: status_hit_powerup_cb)
  show ?thesis
    by (simp add: explosion_cb_def Let_def a b split: prod.splits)
qed

lemma status_mutations: "status (mutations inp st) = status st"
proof -
  have r: "status (update_rockets g s) = status s" for g s
    unfolding update_rockets_def
    by (rule forEach_idx_inv[where P="\<lambda>t. status t = status s"]) (simp_all add: status_rocket_cb)
  have m: "status (update_missiles s) = status s" for s
    unfolding update_missiles_def
    by (rule forEach_idx_inv[where P="\<lambda>t. status t = status s"]) (simp_all add: status_missile_cb)
  have p: "status (update_powerups now s) = status s" for now s
    unfolding update_powerups_def
    by (rule forEach_idx_inv[where P="\<lambda>t. status t = status s"]) (simp_all add: status_powerup_cb)
  have e: "status (update_explosions now s) = status s" for now s
    unfolding update_explosions_def
    by (rule forEach_idx_inv[where P="\<lambda>t. status t = status s"]) (simp_all add: status_explosion_cb)
  show ?thesis
    by (simp add: mutations_def Let_def r m p e status_spawn_phase)
qed


subsection \<open>The selected Emplacement exists\<close>

lemma best_step_bound:
  "i < n \<Longrightarrow> pred_option (\<lambda>q. fst q < n) acc \<Longrightarrow> pred_option (\<lambda>q. fst q < n) (best_step fx bs i acc)"
  by (cases acc) (auto simp: best_step_def Let_def split: if_splits prod.splits)

lemma fold_best_bound:
  "set ks \<subseteq> {..<n} \<Longrightarrow> pred_option (\<lambda>q. fst q < n) acc \<Longrightarrow>
   pred_option (\<lambda>q. fst q < n) (fold (best_step fx bs) ks acc)"
  by (induction ks arbitrary: acc) (simp_all add: best_step_bound)

lemma bestBatteryIndex_bound: "bestBatteryIndex fx bs = Some i \<Longrightarrow> i < length bs"
proof -
  have "set [0..<length bs] \<subseteq> {..<length bs}" by auto
  then have "pred_option (\<lambda>q. fst q < length bs) (fold (best_step fx bs) [0..<length bs] None)"
    by (rule fold_best_bound) simp
  moreover assume "bestBatteryIndex fx bs = Some i"
  ultimately show ?thesis
    by (cases "fold (best_step fx bs) [0..<length bs] None") (auto simp: bestBatteryIndex_def)
qed


subsection \<open>The score stays non-negative\<close>

lemma damage_cities_score: "0 \<le> sc \<Longrightarrow> 0 \<le> snd (damage_cities rx cs sc)"
proof (induction cs arbitrary: sc)
  case Nil
  then show ?case by simp
next
  case (Cons c cs)
  have a: "0 \<le> snd (damage_cities rx cs (max 0 (sc - 10)))" by (rule Cons.IH) simp
  have b: "0 \<le> snd (damage_cities rx cs sc)" by (rule Cons.IH) (rule Cons.prems)
  show ?case using a b by (simp add: case_prod_unfold)
qed

lemma damage_batteries_score: "0 \<le> sc \<Longrightarrow> 0 \<le> snd (damage_batteries rx bs sc)"
proof (induction bs arbitrary: sc)
  case Nil
  then show ?case by simp
next
  case (Cons b bs)
  have a: "0 \<le> snd (damage_batteries rx bs (max 0 (sc - 30)))" by (rule Cons.IH) simp
  have b: "0 \<le> snd (damage_batteries rx bs sc)" by (rule Cons.IH) (rule Cons.prems)
  show ?case using a b by (simp add: case_prod_unfold)
qed

lemma score_spawn_phase: "score (spawn_phase inp st) = score st"
  by (simp add: spawn_phase_def spawnRocket_def spawnPowerUp_def Let_def)

lemma score_rocket_cb: "0 \<le> score st \<Longrightarrow> 0 \<le> score (rocket_cb sugar k st)"
proof -
  assume a: "0 \<le> score st"
  have d: "0 \<le> snd (damage_batteries rx' bs (snd (damage_cities rx cs (score st))))"
    for rx rx' bs cs
    by (intro damage_batteries_score damage_cities_score a)
  show ?thesis
    using a by (simp add: rocket_cb_def Let_def case_prod_unfold d)
qed

lemma score_missile_cb: "score (missile_cb k st) = score st"
  by (simp add: missile_cb_def Let_def)

lemma score_powerup_cb: "score (powerup_cb now k st) = score st"
  by (simp add: powerup_cb_def Let_def)

lemma score_hit_rocket_cb: "0 \<le> score st \<Longrightarrow> 0 \<le> score (hit_rocket_cb e k st)"
  by (simp add: hit_rocket_cb_def Let_def)

lemma score_hit_powerup_cb: "score (hit_powerup_cb now e k st) = score st"
  by (simp add: hit_powerup_cb_def apply_powerup_def Let_def split: PowerUpType.splits)

lemma score_hit_rockets: "0 \<le> score s \<Longrightarrow> 0 \<le> score (forEach_idx n (hit_rocket_cb e) s)"
  by (rule forEach_idx_inv[where P="\<lambda>t. 0 \<le> score t"]) (simp_all add: score_hit_rocket_cb)

lemma score_hit_powerups: "score (forEach_idx n (hit_powerup_cb now e) s) = score s"
  by (rule forEach_idx_inv[where P="\<lambda>t. score t = score s"]) (simp_all add: score_hit_powerup_cb)

lemma score_explosion_cb: "0 \<le> score st \<Longrightarrow> 0 \<le> score (explosion_cb now k st)"
  by (simp add: explosion_cb_def Let_def case_prod_unfold score_hit_powerups score_hit_rockets)

lemma score_update_rockets: "0 \<le> score s \<Longrightarrow> 0 \<le> score (update_rockets g s)"
  unfolding update_rockets_def
  by (rule forEach_idx_inv[where P="\<lambda>t. 0 \<le> score t"]) (simp_all add: score_rocket_cb)

lemma score_update_missiles: "score (update_missiles s) = score s"
  unfolding update_missiles_def
  by (rule forEach_idx_inv[where P="\<lambda>t. score t = score s"]) (simp_all add: score_missile_cb)

lemma score_update_powerups: "score (update_powerups now s) = score s"
  unfolding update_powerups_def
  by (rule forEach_idx_inv[where P="\<lambda>t. score t = score s"]) (simp_all add: score_powerup_cb)

lemma score_update_explosions: "0 \<le> score s \<Longrightarrow> 0 \<le> score (update_explosions now s)"
  unfolding update_explosions_def
  by (rule forEach_idx_inv[where P="\<lambda>t. 0 \<le> score t"]) (simp_all add: score_explosion_cb)

lemma score_mutations: "0 \<le> score st \<Longrightarrow> 0 \<le> score (mutations inp st)"
  by (simp add: mutations_def Let_def score_update_explosions score_update_powerups
      score_update_missiles score_update_rockets score_spawn_phase)

lemma score_update: "0 \<le> score st \<Longrightarrow> 0 \<le> score (update inp st)"
  using score_mutations[of st inp] by (simp add: update_def check_lose_def)

lemma score_handleFire: "score (handleFire fx fy ids st) = score st"
  by (simp add: handleFire_def Let_def split: option.splits)

lemma score_apply_event: "0 \<le> score st \<Longrightarrow> 0 \<le> score (apply_event e st)"
  by (cases e) (simp_all add: initGame_def score_handleFire score_update run_timers_def)


subsection \<open>Launch sites never move\<close>

lemma sites_damage: "sites (fst (damage_batteries rx bs sc)) = sites bs"
proof (induction bs arbitrary: sc)
  case Nil
  then show ?case by simp
next
  case (Cons b bs)
  have t: "sites (x # xs) = battery_pos x # sites xs" for x xs by (simp add: sites_def)
  show ?case
    by (simp add: case_prod_unfold t Cons.IH) (simp add: battery_pos_def)
qed

lemma sites_check_ammo: "sites (check_ammo i bs) = sites bs"
  by (induction bs arbitrary: i) (simp_all add: sites_def battery_pos_def)

lemma sites_spend: "sites (spend i n bs) = sites bs"
proof (cases "i < length bs")
  case True
  have "battery_pos ((bs ! i)\<lparr>b_missiles := b_missiles (bs ! i) - n\<rparr>) = map battery_pos bs ! i"
    using True by (simp add: battery_pos_def)
  then show ?thesis
    by (simp add: sites_def spend_def map_update)
next
  case False
  then show ?thesis by (simp add: sites_def spend_def list_update_beyond not_less)
qed

lemma sites_spawn_phase: "batteriesRef (spawn_phase inp st) = batteriesRef st"
  by (simp add: spawn_phase_def spawnRocket_def spawnPowerUp_def Let_def)

lemma sites_rocket_cb: "sites (batteriesRef (rocket_cb sugar k st)) = sites (batteriesRef st)"
  by (simp add: rocket_cb_def Let_def case_prod_unfold sites_damage)

lemma sites_missile_cb: "batteriesRef (missile_cb k st) = batteriesRef st"
  by (simp add: missile_cb_def Let_def)

lemma sites_powerup_cb: "batteriesRef (powerup_cb now k st) = batteriesRef st"
  by (simp add: powerup_cb_def Let_def)

lemma sites_hit_rocket_cb: "batteriesRef (hit_rocket_cb e k st) = batteriesRef st"
  by (simp add: hit_rocket_cb_def Let_def)

lemma sites_refill:
  "sites (map (\<lambda>b. if b_active b then b\<lparr>b_missiles := b_maxMissiles b\<rparr> else b) bs) = sites bs"
  by (induction bs) (simp_all add: sites_def battery_pos_def)

lemma sites_hit_powerup_cb:
  "sites (batteriesRef (hit_powerup_cb now e k st)) = sites (batteriesRef st)"
  by (simp add: hit_powerup_cb_def apply_powerup_def Let_def sites_refill
      split: PowerUpType.splits)

lemma sites_hit_rockets: "batteriesRef (forEach_idx n (hit_rocket_cb e) s) = batteriesRef s"
  by (rule forEach_idx_inv[where P="\<lambda>t. batteriesRef t = batteriesRef s"])
     (simp_all add: sites_hit_rocket_cb)

lemma sites_hit_powerups:
  "sites (batteriesRef (forEach_idx n (hit_powerup_cb now e) s)) = sites (batteriesRef s)"
  by (rule forEach_idx_inv[where P="\<lambda>t. sites (batteriesRef t) = sites (batteriesRef s)"])
     (simp_all add: sites_hit_powerup_cb)

lemma sites_explosion_cb:
  "sites (batteriesRef (explosion_cb now k st)) = sites (batteriesRef st)"
  by (simp add: explosion_cb_def Let_def case_prod_unfold sites_hit_powerups sites_hit_rockets)

lemma sites_update_rockets: "sites (batteriesRef (update_rockets g s)) = sites (batteriesRef s)"
  unfolding update_rockets_def
  by (rule forEach_idx_inv[where P="\<lambda>t. sites (batteriesRef t) = sites (batteriesRef s)"])
     (simp_all add: sites_rocket_cb)

lemma sites_update_missiles: "batteriesRef (update_missiles s) = batteriesRef s"
  unfolding update_missiles_def
  by (rule forEach_idx_inv[where P="\<lambda>t. batteriesRef t = batteriesRef s"])
     (simp_all add: sites_missile_cb)

lemma sites_update_powerups: "batteriesRef (update_powerups now s) = batteriesRef s"
  unfolding update_powerups_def
  by (rule forEach_idx_inv[where P="\<lambda>t. batteriesRef t = batteriesRef s"])
     (simp_all add: sites_powerup_cb)

lemma sites_update_explosions:
  "sites (batteriesRef (update_explosions now s)) = sites (batteriesRef s)"
  unfolding update_explosions_def
  by (rule forEach_idx_inv[where P="\<lambda>t. sites (batteriesRef t) = sites (batteriesRef s)"])
     (simp_all add: sites_explosion_cb)

lemma sites_mutations: "sites (batteriesRef (mutations inp st)) = sites (batteriesRef st)"
  by (simp add: mutations_def Let_def sites_check_ammo sites_update_explosions
      sites_update_powerups sites_update_missiles sites_update_rockets sites_spawn_phase)

lemma sites_update: "sites (batteriesRef (update inp st)) = sites (batteriesRef st)"
  by (simp add: update_def check_lose_def sites_mutations)

lemma sites_handleFire: "sites (batteriesRef (handleFire fx fy ids st)) = sites (batteriesRef st)"
  by (simp add: handleFire_def Let_def sites_spend split: option.splits)

lemma sites_apply_event: "sites (batteriesRef (apply_event e s)) =
    (if e = Start then sites initial_batteries else sites (batteriesRef s))"
  by (cases e) (simp_all add: initGame_def sites_handleFire sites_update run_timers_def)

lemma sites_run: "sites (batteriesRef (run evs)) = sites initial_batteries"
  by (rule run_inv[where P="\<lambda>s. sites (batteriesRef s) = sites initial_batteries"])
     (simp_all add: mount_def sites_apply_event)

lemma length_batteries_run: "length (batteriesRef (run evs)) = 3"
proof -
  have "length (sites (batteriesRef (run evs))) = length (sites initial_batteries)"
    by (simp only: sites_run)
  then show ?thesis by (simp add: sites_def initial_batteries_def)
qed

lemma launch_sites:
  assumes "i < length (batteriesRef (run evs))"
  shows "b_y (batteriesRef (run evs) ! i) = 560"
proof -
  have "sites (batteriesRef (run evs)) ! i = sites initial_batteries ! i"
    by (simp only: sites_run)
  then have "battery_pos (batteriesRef (run evs) ! i) = sites initial_batteries ! i"
    using assms by (simp add: sites_def)
  moreover have "i < 3" using assms by (simp add: length_batteries_run)
  then have "i = 0 \<or> i = 1 \<or> i = 2" by arith
  ultimately have "pt_y (battery_pos (batteriesRef (run evs) ! i)) = 560"
    by (auto simp: sites_def initial_batteries_def battery_pos_def CANVAS_HEIGHT_def)
  then show ?thesis by (simp add: battery_pos_def)
qed

lemma seg_dist_far:
  assumes "pt_y t \<le> pt_y s - 40"
  shows "40 \<le> seg_dist s t"
proof -
  have "40 \<le> \<bar>pt_y t - pt_y s\<bar>" using assms by simp
  also have "\<dots> \<le> sqrt ((pt_x t - pt_x s)\<^sup>2 + (pt_y t - pt_y s)\<^sup>2)"
    by (rule real_sqrt_ge_abs2)
  finally show ?thesis by (simp add: seg_dist_def Let_def power2_eq_square)
qed


subsection \<open>Evaluating a frame on a concrete state\<close>

lemmas consts_defs = CANVAS_WIDTH_def CANVAS_HEIGHT_def EXPLOSION_MAX_RADIUS_def
  EXPLOSION_SPEED_def MISSILE_SPEED_def ROCKET_SPEED_MIN_def ROCKET_SPEED_MAX_def

lemma dist2_vertical: "dist2 ax ay ax by = \<bar>ay - by\<bar>"
  by (simp add: dist2_def)

lemma dist2_horizontal: "dist2 ax ay bx ay = \<bar>ax - bx\<bar>"
  by (simp add: dist2_def)

lemma sqrt_580: "sqrt 336400 = 580"
proof -
  have "sqrt ((580::real)\<^sup>2) = 580" by simp
  then show ?thesis by simp
qed

lemmas pass_defs = update_explosions_def forEach_idx_def explosion_cb_def explosion_step_def
  hit_rocket_cb_def hit_powerup_cb_def apply_powerup_def splice1_def EXPLOSION_SPEED_def Let_def
  dist2_vertical dist2_horizontal

lemmas tick_defs = update_def mutations_def check_lose_def spawn_phase_def update_rockets_def
  update_missiles_def update_powerups_def tick0_def
  rocket_cb_def missile_cb_def powerup_cb_def battery_cost_def

subsection \<open>What holds of every Blast\<close>

lemma explosion_step_growing:
  assumes "e_growing e"
  shows "e_radius (fst (explosion_step e)) = e_radius e + 1.5"
    and "\<not> snd (explosion_step e)"
    and "e_growing (fst (explosion_step e)) \<longleftrightarrow> e_radius e + 1.5 < e_maxRadius e"
  using assms by (auto simp: explosion_step_def EXPLOSION_SPEED_def Let_def)

lemma explosion_step_fading:
  assumes "\<not> e_growing e"
  shows "e_radius (fst (explosion_step e)) = e_radius e - 0.75"
    and "\<not> e_growing (fst (explosion_step e))"
    and "snd (explosion_step e) \<longleftrightarrow> e_radius e - 0.75 \<le> 0"
  using assms by (auto simp: explosion_step_def EXPLOSION_SPEED_def Let_def)

lemma explosion_step_positive:
  assumes "0 < e_radius e" and "\<not> snd (explosion_step e)"
  shows "0 < e_radius (fst (explosion_step e))"
  using assms by (auto simp: explosion_step_def EXPLOSION_SPEED_def Let_def split: if_splits)

lemma list_all_splice1: "list_all P xs \<Longrightarrow> list_all P (splice1 i xs)"
  unfolding splice1_def list_all_iff
  by (auto dest: in_set_takeD in_set_dropD)

lemma list_all_update: "list_all P xs \<Longrightarrow> P y \<Longrightarrow> list_all P (xs[i := y])"
  unfolding list_all_iff
  by (auto dest: set_update_subset_insert[THEN subsetD])

lemma explosions_hit_rocket_cb: "explosionsRef (hit_rocket_cb e k st) = explosionsRef st"
  by (simp add: hit_rocket_cb_def Let_def)

lemma explosions_hit_powerup_cb: "explosionsRef (hit_powerup_cb now e k st) = explosionsRef st"
  by (simp add: hit_powerup_cb_def apply_powerup_def Let_def split: PowerUpType.splits)

lemma explosions_hit_rockets: "explosionsRef (forEach_idx n (hit_rocket_cb e) s) = explosionsRef s"
  by (rule forEach_idx_inv[where P="\<lambda>t. explosionsRef t = explosionsRef s"])
     (simp_all add: explosions_hit_rocket_cb)

lemma explosions_hit_powerups:
  "explosionsRef (forEach_idx n (hit_powerup_cb now e) s) = explosionsRef s"
  by (rule forEach_idx_inv[where P="\<lambda>t. explosionsRef t = explosionsRef s"])
     (simp_all add: explosions_hit_powerup_cb)

lemma radii_explosion_cb: "radii_ok st \<Longrightarrow> radii_ok (explosion_cb now k st)"
proof -
  assume a: "radii_ok st"
  show ?thesis
  proof (cases "k < length (explosionsRef st)")
    case False
    then show ?thesis using a by (simp add: explosion_cb_def)
  next
    case True
    let ?e = "explosionsRef st ! k"
    have pos: "0 < e_radius ?e"
      using a True by (simp add: radii_ok_def list_all_length)
    have "list_all (\<lambda>e. 0 < e_radius e)
            (if snd (explosion_step ?e) then splice1 k (explosionsRef st)
             else (explosionsRef st)[k := fst (explosion_step ?e)])"
      using a explosion_step_positive[OF pos]
      by (simp add: radii_ok_def list_all_splice1 list_all_update)
    then show ?thesis
      using True
      by (simp add: explosion_cb_def case_prod_unfold Let_def radii_ok_def
          explosions_hit_powerups explosions_hit_rockets)
  qed
qed

lemma radii_rocket_cb: "radii_ok st \<Longrightarrow> radii_ok (rocket_cb sugar k st)"
  by (simp add: rocket_cb_def Let_def case_prod_unfold radii_ok_def impact_explosion_def)

lemma radii_missile_cb: "radii_ok st \<Longrightarrow> radii_ok (missile_cb k st)"
  by (simp add: missile_cb_def Let_def radii_ok_def missile_explosion_def)

lemma radii_powerup_cb: "radii_ok st \<Longrightarrow> radii_ok (powerup_cb now k st)"
  by (simp add: powerup_cb_def Let_def radii_ok_def)

lemma radii_mutations: "radii_ok st \<Longrightarrow> radii_ok (mutations inp st)"
proof -
  assume a: "radii_ok st"
  have 1: "radii_ok (spawn_phase inp st)"
    using a by (simp add: radii_ok_def spawn_phase_def spawnRocket_def spawnPowerUp_def Let_def)
  have 2: "radii_ok (update_rockets g s)" if "radii_ok s" for g s
    unfolding update_rockets_def
    by (rule forEach_idx_inv[where P=radii_ok]) (simp_all add: that radii_rocket_cb)
  have 3: "radii_ok (update_missiles s)" if "radii_ok s" for s
    unfolding update_missiles_def
    by (rule forEach_idx_inv[where P=radii_ok]) (simp_all add: that radii_missile_cb)
  have 4: "radii_ok (update_powerups now s)" if "radii_ok s" for now s
    unfolding update_powerups_def
    by (rule forEach_idx_inv[where P=radii_ok]) (simp_all add: that radii_powerup_cb)
  have 5: "radii_ok (update_explosions now s)" if "radii_ok s" for now s
    unfolding update_explosions_def
    by (rule forEach_idx_inv[where P=radii_ok]) (simp_all add: that radii_explosion_cb)
  have "radii_ok (update_explosions (t_now inp) (update_powerups (t_now inp)
          (update_missiles (update_rockets (isSugarActive st) (spawn_phase inp st)))))"
    by (intro 5 4 3 2 1)
  then show ?thesis by (simp add: mutations_def Let_def radii_ok_def)
qed

lemma radii_apply_event: "radii_ok st \<Longrightarrow> radii_ok (apply_event e st)"
proof (cases e)
  case Start
  then show ?thesis by (simp add: radii_ok_def initGame_def)
next
  case (Fire fx fy ids)
  assume "radii_ok st"
  then show ?thesis using Fire
    by (simp add: radii_ok_def handleFire_def Let_def split: option.splits)
next
  case (Frame inp)
  assume "radii_ok st"
  then show ?thesis using Frame radii_mutations[of st inp]
    by (simp add: update_def check_lose_def radii_ok_def)
next
  case (Timeout t)
  assume "radii_ok st"
  then show ?thesis using Timeout by (simp add: radii_ok_def run_timers_def)
qed

lemma radii_positive: "list_all (\<lambda>e. 0 < e_radius e) (explosionsRef (run evs))"
proof -
  have "radii_ok (run evs)"
  proof (rule run_inv[where P=radii_ok])
    show "radii_ok mount" by (simp add: radii_ok_def mount_def)
  qed (rule radii_apply_event)
  then show ?thesis by (simp add: radii_ok_def)
qed

subsection \<open>A second slow-time Pickup never extends the effect\<close>

lemma second_pickup_does_not_restart:
  assumes "pu_type pu1 = SUGAR" and "pu_type pu2 = SUGAR" and "t1 < t2" and "t2 < t1 + 5000"
  shows "\<not> isSugarActive (run_timers (t1 + 5000)
            (apply_powerup t2 pu2 (run_timers t2 (apply_powerup t1 pu1 st))))"
  using assms by (simp add: run_timers_def apply_powerup_def)

section \<open>Start and reset\<close>

text \<open>
  Claim C8. Whatever the state of the session (so in particular in every state reached after
  a loss), the start/reset command leaves score 0, the three Emplacements active with
  ammunition 50, 100 and 50, the six Structures active, and the Projectile, Interceptor,
  Blast and Pickup pools empty; the session is running again.
\<close>

theorem initGame_resets:
  "score (initGame st) = 0 \<and> status (initGame st) = PLAYING
   \<and> map b_missiles (batteriesRef (initGame st)) = [50, 100, 50]
   \<and> map b_active (batteriesRef (initGame st)) = [True, True, True]
   \<and> map c_active (citiesRef (initGame st)) = [True, True, True, True, True, True]
   \<and> rocketsRef (initGame st) = [] \<and> missilesRef (initGame st) = []
   \<and> explosionsRef (initGame st) = [] \<and> powerUpsRef (initGame st) = []"
  by (simp add: initGame_def initial_batteries_def initial_cities_def)

section \<open>Fire commands\<close>

lemma best_center: "bestBatteryIndex 400 initial_batteries = Some 1"
  by (simp add: bestBatteryIndex_def initial_batteries_def best_step_def battery_cost_def
      CANVAS_WIDTH_def CANVAS_HEIGHT_def upt_rec)

text \<open>
  Claim C6. A fire command that is dispatched to the center Emplacement while the Projectile
  pool is empty appends exactly one Interceptor: it has no tracking reference, its target is
  the fire point, its speed is the plain missile speed, and the center Emplacement's
  ammunition goes down by exactly 1.
\<close>

theorem center_no_rockets:
  assumes "status st = PLAYING" and "fy \<le> 520"
    and "bestBatteryIndex fx (batteriesRef st) = Some 1"
    and "rocketsRef st = []"
  shows "missilesRef (handleFire fx fy ids st) =
           missilesRef st @
             [\<lparr>m_id = ids 0, m_start = battery_pos (batteriesRef st ! 1),
               m_current = battery_pos (batteriesRef st ! 1),
               m_target = \<lparr>pt_x = fx, pt_y = fy\<rparr>, m_speed = MISSILE_SPEED,
               m_batteryIndex = 1, m_targetRocketId = None\<rparr>]
         \<and> b_missiles (batteriesRef (handleFire fx fy ids st) ! 1) =
             b_missiles (batteriesRef st ! 1) - 1"
proof -
  have len: "1 < length (batteriesRef st)"
    using bestBatteryIndex_bound[OF assms(3)] .
  show ?thesis
    using assms len
    by (simp add: handleFire_def CANVAS_HEIGHT_def nearest_rockets_def plain_missile_def
        spend_def Let_def)
qed

theorem center_no_rockets_witness:
  "missilesRef (handleFire 400 300 (\<lambda>k. ''m'') (initGame mount)) =
     [\<lparr>m_id = ''m'', m_start = \<lparr>pt_x = 400, pt_y = 560\<rparr>, m_current = \<lparr>pt_x = 400, pt_y = 560\<rparr>,
       m_target = \<lparr>pt_x = 400, pt_y = 300\<rparr>, m_speed = 7, m_batteryIndex = 1,
       m_targetRocketId = None\<rparr>]
   \<and> b_missiles (batteriesRef (handleFire 400 300 (\<lambda>k. ''m'') (initGame mount)) ! 1) = 99"
proof -
  have h1: "status (initGame mount) = PLAYING" by (simp add: initGame_def)
  have h2: "(300::real) \<le> 520" by simp
  have h3: "bestBatteryIndex 400 (batteriesRef (initGame mount)) = Some 1"
    by (simp add: initGame_def best_center)
  have h4: "rocketsRef (initGame mount) = []" by (simp add: initGame_def)
  show ?thesis
    using center_no_rockets[OF h1 h2 h3 h4, of "\<lambda>k. ''m''"]
    by (simp add: initGame_def mount_def initial_batteries_def battery_pos_def MISSILE_SPEED_def
        CANVAS_WIDTH_def CANVAS_HEIGHT_def)
qed

lemma nearest_low:
  "nearest_rockets 400 300 (rocketsRef low_ammo) = [rocket_at ''c'' 400 300, rocket_at ''b'' 400 290]"
  by (simp add: nearest_rockets_def low_ammo_def rocket_at_def dist2_def sort_key_def)

text \<open>
  Claim C4. A fire command that is dispatched to the center Emplacement while that
  Emplacement holds exactly 1 unit (which passes the eligibility test at cost 1) and at least
  two Projectiles are alive appends two tracking Interceptors, one for each of the two
  Projectiles nearest to the fire point, and leaves the Emplacement with ammunition -1.
\<close>

theorem center_overdraw:
  assumes "status st = PLAYING" and "fy \<le> 520"
    and "bestBatteryIndex fx (batteriesRef st) = Some 1"
    and "b_missiles (batteriesRef st ! 1) = 1"
    and "2 \<le> length (rocketsRef st)"
  shows "missilesRef (handleFire fx fy ids st) =
           missilesRef st @
             [tracking_missile (batteriesRef st ! 1) 1 (ids 0)
                (nearest_rockets fx fy (rocketsRef st) ! 0),
              tracking_missile (batteriesRef st ! 1) 1 (ids 1)
                (nearest_rockets fx fy (rocketsRef st) ! 1)]
         \<and> b_missiles (batteriesRef (handleFire fx fy ids st) ! 1) = - 1"
proof -
  have len: "1 < length (batteriesRef st)"
    using bestBatteryIndex_bound[OF assms(3)] .
  have "length (nearest_rockets fx fy (rocketsRef st)) = 2"
    using assms(5) by (simp add: nearest_rockets_def)
  then obtain r1 r2 where n: "nearest_rockets fx fy (rocketsRef st) = [r1, r2]"
    by (metis (no_types, opaque_lifting) One_nat_def Suc_1 length_0_conv length_Suc_conv)
  have u: "[0..<2] = [0, Suc 0]" by (simp add: upt_rec)
  show ?thesis
    using assms(1-4) len n u
    by (simp add: handleFire_def CANVAS_HEIGHT_def spend_def Let_def)
qed

theorem center_overdraw_witness:
  "missilesRef (handleFire 400 300 (\<lambda>k. if k = 0 then ''m0'' else ''m1'') low_ammo) =
     [\<lparr>m_id = ''m0'', m_start = \<lparr>pt_x = 400, pt_y = 560\<rparr>, m_current = \<lparr>pt_x = 400, pt_y = 560\<rparr>,
       m_target = \<lparr>pt_x = 400, pt_y = 300\<rparr>, m_speed = 10.5, m_batteryIndex = 1,
       m_targetRocketId = Some ''c''\<rparr>,
      \<lparr>m_id = ''m1'', m_start = \<lparr>pt_x = 400, pt_y = 560\<rparr>, m_current = \<lparr>pt_x = 400, pt_y = 560\<rparr>,
       m_target = \<lparr>pt_x = 400, pt_y = 290\<rparr>, m_speed = 10.5, m_batteryIndex = 1,
       m_targetRocketId = Some ''b''\<rparr>]
   \<and> b_missiles (batteriesRef
         (handleFire 400 300 (\<lambda>k. if k = 0 then ''m0'' else ''m1'') low_ammo) ! 1) = - 1"
proof -
  have h1: "status low_ammo = PLAYING" by (simp add: low_ammo_def initGame_def)
  have h2: "(300::real) \<le> 520" by simp
  have h3: "bestBatteryIndex 400 (batteriesRef low_ammo) = Some 1"
    by (simp add: low_ammo_def bestBatteryIndex_def best_step_def battery_cost_def upt_rec)
  have h4: "b_missiles (batteriesRef low_ammo ! 1) = 1" by (simp add: low_ammo_def)
  have h5: "2 \<le> length (rocketsRef low_ammo)" by (simp add: low_ammo_def)
  show ?thesis
    using center_overdraw[OF h1 h2 h3 h4 h5, of "\<lambda>k. if k = 0 then ''m0'' else ''m1''"]
    by (simp add: nearest_low)
       (simp add: low_ammo_def initGame_def mount_def tracking_missile_def battery_pos_def
          rocket_at_def MISSILE_SPEED_def)
qed

text \<open>
  Claim C9. The advance step of an Interceptor divides by \<open>seg_dist\<close> of its start and
  target (see \<open>velocity\<close>), with no test for zero. In every state a session can reach, every
  Interceptor that a fire command appends without a tracking reference has a divisor of at
  least 40, hence not zero: a fire point is accepted only at \<open>y \<le> 520\<close>, and every launch
  site stays at \<open>y = 560\<close>.
\<close>

theorem untracked_divisor_nonzero:
  assumes "m \<in> set (drop (length (missilesRef (run evs)))
                         (missilesRef (handleFire fx fy ids (run evs))))"
      and "m_targetRocketId m = None"
  shows "40 \<le> seg_dist (m_start m) (m_target m) \<and> seg_dist (m_start m) (m_target m) \<noteq> 0"
proof -
  let ?st = "run evs"
  have plain: "40 \<le> seg_dist (m_start (plain_missile (batteriesRef ?st ! i) i ident fx fy sp))
                           (m_target (plain_missile (batteriesRef ?st ! i) i ident fx fy sp))"
    if "i < length (batteriesRef ?st)" "fy \<le> 520" for i ident sp
    using that launch_sites[OF that(1)]
    by (intro seg_dist_far) (simp add: plain_missile_def battery_pos_def)
  have tracked: "m \<notin> set (map (\<lambda>(k, r). tracking_missile b i (ids k) r) zs)" for b i zs
    using assms(2) by (auto simp: tracking_missile_def)
  have "40 \<le> seg_dist (m_start m) (m_target m)"
  proof (cases "status ?st = PLAYING \<and> fy \<le> 520")
    case False
    then show ?thesis using assms(1) by (auto simp: handleFire_def CANVAS_HEIGHT_def)
  next
    case True
    show ?thesis
    proof (cases "bestBatteryIndex fx (batteriesRef ?st)")
      case None
      then show ?thesis using assms(1) True by (simp add: handleFire_def CANVAS_HEIGHT_def)
    next
      case (Some i)
      have len: "i < length (batteriesRef ?st)" by (rule bestBatteryIndex_bound[OF Some])
      have p: "40 \<le> seg_dist (m_start (plain_missile (batteriesRef ?st ! i) i ident fx fy sp))
                           (m_target (plain_missile (batteriesRef ?st ! i) i ident fx fy sp))"
        for ident sp using plain[OF len] True by simp
      consider "i = 0" | "i = 1" | "i = 2" | "i > 2" by arith
      then show ?thesis
      proof cases
        case 1
        then show ?thesis using assms(1) True Some p[of "ids 0" "MISSILE_SPEED * 0.7"]
          by (simp add: handleFire_def CANVAS_HEIGHT_def Let_def)
      next
        case 2
        then show ?thesis using assms(1) True Some p[of "ids 0" "MISSILE_SPEED"] tracked
          by (simp add: handleFire_def CANVAS_HEIGHT_def Let_def split: if_splits)
      next
        case 3
        then show ?thesis using assms(1) True Some p[of "ids 0" "MISSILE_SPEED"]
          by (simp add: handleFire_def CANVAS_HEIGHT_def Let_def)
      next
        case 4
        then show ?thesis using assms(1) True Some
          by (simp add: handleFire_def CANVAS_HEIGHT_def Let_def)
      qed
    qed
  qed
  then show ?thesis by simp
qed

theorem untracked_divisor_nonzero_witness:
  "plain_missile (initial_batteries ! 1) 1 ''m'' 400 300 MISSILE_SPEED
     \<in> set (drop (length (missilesRef (run [Start])))
                 (missilesRef (handleFire 400 300 (\<lambda>k. ''m'') (run [Start]))))
   \<and> 40 \<le> seg_dist \<lparr>pt_x = 400, pt_y = 560\<rparr> \<lparr>pt_x = 400, pt_y = 300\<rparr>
   \<and> seg_dist \<lparr>pt_x = 400, pt_y = 560\<rparr> \<lparr>pt_x = 400, pt_y = 300\<rparr> \<noteq> 0"
proof -
  let ?m = "plain_missile (initial_batteries ! 1) 1 ''m'' 400 300 MISSILE_SPEED"
  have r: "run [Start] = initGame mount" by (simp add: run_def)
  have h1: "?m \<in> set (drop (length (missilesRef (run [Start])))
                 (missilesRef (handleFire 400 300 (\<lambda>k. ''m'') (run [Start]))))"
    by (simp add: r handleFire_def initGame_def mount_def best_center CANVAS_HEIGHT_def
        nearest_rockets_def Let_def)
  have h2: "m_targetRocketId ?m = None" by (simp add: plain_missile_def)
  show ?thesis
    using h1 untracked_divisor_nonzero[OF h1 h2]
    by (simp add: plain_missile_def battery_pos_def initial_batteries_def CANVAS_HEIGHT_def
        CANVAS_WIDTH_def)
qed

section \<open>The loss check\<close>

text \<open>
  Claim C3. In a running session one frame is the loss check applied to the result of all
  other mutations of that frame, which never touch the status. So the status after the frame
  is lost exactly if every Emplacement is inactive in the state the frame leaves, and it is
  still running otherwise: a frame with an active Emplacement left never ends the session.
\<close>

theorem lose_check:
  assumes "status st = PLAYING"
  shows "update inp st = check_lose (mutations inp st)
       \<and> status (mutations inp st) = PLAYING
       \<and> batteriesRef (update inp st) = batteriesRef (mutations inp st)
       \<and> (status (update inp st) = LOST \<longleftrightarrow>
            list_all (\<lambda>b. \<not> b_active b) (batteriesRef (update inp st)))
       \<and> (status (update inp st) = PLAYING \<longleftrightarrow>
            list_ex b_active (batteriesRef (update inp st)))"
  using assms
  by (auto simp: update_def check_lose_def status_mutations list_ex_iff list_all_iff)

lemma mutations_dry:
  "map b_active (batteriesRef (mutations tick0 dry)) = [False, False, False]"
  by (simp add: mutations_def Let_def dry_def initGame_def mount_def tick0_def spawn_phase_def
      update_rockets_def update_missiles_def update_powerups_def update_explosions_def
      forEach_idx_def battery_cost_def)

lemma mutations_fresh:
  "map b_active (batteriesRef (mutations tick0 (initGame mount))) = [True, True, True]"
  by (simp add: mutations_def Let_def initGame_def mount_def tick0_def spawn_phase_def
      update_rockets_def update_missiles_def update_powerups_def update_explosions_def
      forEach_idx_def battery_cost_def initial_batteries_def)

theorem lose_check_witness:
  "status dry = PLAYING \<and> status (update tick0 dry) = LOST
   \<and> map b_active (batteriesRef (update tick0 dry)) = [False, False, False]
   \<and> status (update tick0 (initGame mount)) = PLAYING
   \<and> map b_active (batteriesRef (update tick0 (initGame mount))) = [True, True, True]"
proof -
  have h1: "status dry = PLAYING" by (simp add: dry_def initGame_def)
  have h2: "status (initGame mount) = PLAYING" by (simp add: initGame_def)
  note d = lose_check[OF h1, of tick0] and f = lose_check[OF h2, of tick0]
  have d3: "batteriesRef (update tick0 dry) = batteriesRef (mutations tick0 dry)"
    and d4: "status (update tick0 dry) = LOST \<longleftrightarrow>
               list_all (\<lambda>b. \<not> b_active b) (batteriesRef (update tick0 dry))"
    using d by blast+
  have f3: "batteriesRef (update tick0 (initGame mount)) =
              batteriesRef (mutations tick0 (initGame mount))"
    and f5: "status (update tick0 (initGame mount)) = PLAYING \<longleftrightarrow>
               list_ex b_active (batteriesRef (update tick0 (initGame mount)))"
    using f by blast+
  have a: "list_all (\<lambda>b. \<not> b_active b) (batteriesRef (update tick0 dry))"
    using mutations_dry unfolding d3 by (auto simp: list_all_iff dest!: arg_cong[where f=set])
  have b: "list_ex b_active (batteriesRef (update tick0 (initGame mount)))"
    using mutations_fresh unfolding f3
    by (cases "batteriesRef (mutations tick0 (initGame mount))") (auto simp: list_ex_iff)
  show ?thesis
    using h1 a b mutations_dry mutations_fresh by (simp add: d3 d4 f3 f5)
qed

section \<open>The score\<close>

text \<open>
  Claim C7. The score is never negative: in the state reached by any session from the
  mounted state (score 0), whatever Structures and Emplacements were hit (-10 and -30,
  clamped at 0) and Projectiles destroyed (+20), \<open>max 0 score = score\<close>.
\<close>

theorem score_never_negative: "max 0 (score (run evs)) = score (run evs)"
proof -
  have "0 \<le> score (run evs)"
    by (rule run_inv[where P="\<lambda>s. 0 \<le> score s"]) (simp_all add: mount_def score_apply_event)
  then show ?thesis by simp
qed

theorem score_never_negative_witness:
  "max 0 (score (run [Start, Frame tick0])) = score (run [Start, Frame tick0])"
  using score_never_negative[of "[Start, Frame tick0]"] by simp

section \<open>The collision pass\<close>

text \<open>
  Claim C2. The claim is that the result of the pass over the Blast pool does not depend on
  the order of the pools. On the code it does: with one Blast and two Projectiles inside its
  radius, the pass destroys the Projectile that comes first in the pool and never tests the
  other one, because \<^verbatim>\<open>splice\<close> moves it to the index that \<^verbatim>\<open>forEach\<close> has just left.
  The two orders leave different survivors (and the same score, 20).
\<close>

theorem pass_order_dependent:
  "rocketsRef (update_explosions 1000
       (two_in_range [rocket_at ''a'' 300 190, rocket_at ''b'' 310 200])) = [rocket_at ''b'' 310 200]
   \<and> rocketsRef (update_explosions 1000
       (two_in_range [rocket_at ''b'' 310 200, rocket_at ''a'' 300 190])) = [rocket_at ''a'' 300 190]
   \<and> score (update_explosions 1000
       (two_in_range [rocket_at ''a'' 300 190, rocket_at ''b'' 310 200])) = 20
   \<and> score (update_explosions 1000
       (two_in_range [rocket_at ''b'' 310 200, rocket_at ''a'' 300 190])) = 20"
  by (simp add: two_in_range_def initGame_def mount_def rocket_at_def pass_defs)

text \<open>
  Claim C5. The claim is that a Blast grows by 1.5 on every tick up to its maximum and then
  shrinks by 0.75 on every tick until it is destroyed. On the code a Blast that follows, in
  the pool, a Blast destroyed on this tick is not stepped at all on this tick: here the
  older Blast fades out and the younger one, which should grow from 3.5 to 5, still has
  radius 3.5 after the frame. (The lemmas \<open>explosion_step_growing\<close>,
  \<open>explosion_step_fading\<close> and \<open>radii_positive\<close> above give what does hold: the step
  itself, and a positive radius for every Blast in the pool of every reachable state.)
\<close>

theorem blast_skipped:
  "explosionsRef (update tick0 fading_then_growing) =
     [\<lparr>e_id = ''exp-b'', e_x = 500, e_y = 200, e_radius = 3.5, e_maxRadius = 35,
       e_growing = True\<rparr>]
   \<and> e_radius (fst (explosion_step (explosionsRef fading_then_growing ! 1))) = 5"
  by (simp add: fading_then_growing_def initGame_def mount_def initial_batteries_def
      initial_cities_def tick_defs pass_defs)

lemma rockets_landing:
  "update_rockets False landing =
     landing\<lparr>rocketsRef := [rocket_at ''a'' 150 579, rocket_at ''b'' 150 579.8],
             explosionsRef := [\<lparr>e_id = ''impact-r0'', e_x = 150, e_y = 580.3, e_radius = 2,
                                e_maxRadius = 20, e_growing = True\<rparr>],
             citiesRef := [\<lparr>c_x = 150, c_active = False\<rparr>, \<lparr>c_x = 250, c_active = True\<rparr>,
               \<lparr>c_x = 350, c_active = True\<rparr>, \<lparr>c_x = 450, c_active = True\<rparr>,
               \<lparr>c_x = 550, c_active = True\<rparr>, \<lparr>c_x = 650, c_active = True\<rparr>]\<rparr>"
  by (simp add: update_rockets_def forEach_idx_def rocket_cb_def Let_def landing_def
      initGame_def mount_def initial_cities_def initial_batteries_def consts_defs
      velocity_def seg_dist_def rocket_at_def sqrt_580 impact_explosion_def splice1_def)

text \<open>
  Claim C10. The Blast of a ground impact does enter the common pool and is stepped and
  tested like any other on the same frame, but it does not destroy every Projectile inside
  its radius: of two neighbours in the pool that are both inside, the pass removes the
  first and never tests the second. Here the Projectile \<open>r0\<close> lands, its Blast (radius 3.5
  after the step) destroys \<open>a\<close> for 20 points, and \<open>b\<close>, at distance 0.5 from the center,
  is still alive after the frame.
\<close>

theorem impact_blast_misses:
  "rocketsRef (update tick0 landing) = [rocket_at ''b'' 150 579.8]
   \<and> explosionsRef (update tick0 landing) =
       [\<lparr>e_id = ''impact-r0'', e_x = 150, e_y = 580.3, e_radius = 3.5, e_maxRadius = 20,
         e_growing = True\<rparr>]
   \<and> dist2 150 580.3 150 579.8 < 3.5
   \<and> score (update tick0 landing) = 20"
proof -
  have s: "status landing = PLAYING" "isSugarActive landing = False"
     "spawn_phase tick0 landing = landing"
    by (simp_all add: landing_def initGame_def mount_def spawn_phase_def tick0_def)
  show ?thesis
    by (simp add: update_def mutations_def s rockets_landing)
       (simp add: landing_def initGame_def mount_def update_missiles_def update_powerups_def
         check_lose_def pass_defs rocket_at_def initial_batteries_def battery_cost_def
         tick0_def CANVAS_HEIGHT_def CANVAS_WIDTH_def)
qed

lemma frame_a:
  "update tick_a sugar_scene = sugar_scene
     \<lparr>explosionsRef := [\<lparr>e_id = ''exp-m'', e_x = 300, e_y = 200, e_radius = 21.5,
                          e_maxRadius = 35, e_growing = True\<rparr>],
      powerUpsRef := [\<lparr>pu_id = ''s2'', pu_x = 300, pu_y = 222, pu_type = SUGAR,
                        pu_createdAt = 0, pu_duration = 5000\<rparr>],
      isSugarActive := True, sugarTimers := [6000]\<rparr>"
  by (simp add: sugar_scene_def tick_a_def initGame_def mount_def initial_batteries_def
      initial_cities_def tick_defs pass_defs consts_defs)

lemma frame_b:
  "update tick_b (update tick_a sugar_scene) = sugar_scene
     \<lparr>explosionsRef := [\<lparr>e_id = ''exp-m'', e_x = 300, e_y = 200, e_radius = 23,
                          e_maxRadius = 35, e_growing = True\<rparr>],
      powerUpsRef := [],
      isSugarActive := True, sugarTimers := [6000, 7000]\<rparr>"
  unfolding frame_a
  by (simp add: sugar_scene_def tick_b_def initGame_def mount_def initial_batteries_def
      initial_cities_def tick_defs pass_defs consts_defs)

section \<open>The slow-time effect\<close>

text \<open>
  Claim C1. The claim is that a slow-time Pickup consumed while the effect is active restarts
  the 5-second window. On the code the timer of the first Pickup is never cleared: with
  Pickups consumed at wall-clock times 1000 and 2000, the callbacks are due at 6000 and 7000,
  and the one due at 6000 switches the effect off, one second before the window of the
  second Pickup ends.
\<close>

theorem slow_time_cut_short:
  "isSugarActive (update tick_b (update tick_a sugar_scene))
   \<and> sugarTimers (update tick_b (update tick_a sugar_scene)) = [1000 + 5000, 2000 + 5000]
   \<and> \<not> isSugarActive (run_timers 6000 (update tick_b (update tick_a sugar_scene)))"
  unfolding frame_b by (simp add: run_timers_def)

end
